theory Spec2Isabelle
  imports Complex_Main "HOL-Library.Multiset" "HOL-Library.Sublist"
    "HOL-Library.Char_ord" "HOL-Library.List_Lexorder" "HOL-Library.Product_Lexorder"
begin

section \<open>Python strings\<close>

text \<open>
  Paths, column names and model names are Python \<^verbatim>\<open>str\<close> values. They are modelled as
  \<^typ>\<open>string\<close> over ASCII: \<^verbatim>\<open>lower()\<close>, \<^verbatim>\<open>isalpha()\<close>, \<^verbatim>\<open>strip()\<close> and the regular
  expression classes act on the ASCII letters, digits and blanks.
\<close>

definition is_upper :: "char \<Rightarrow> bool" where
  "is_upper c = (let n = (of_char c :: nat) in 65 \<le> n \<and> n \<le> 90)"

definition is_lower :: "char \<Rightarrow> bool" where
  "is_lower c = (let n = (of_char c :: nat) in 97 \<le> n \<and> n \<le> 122)"

definition is_digit :: "char \<Rightarrow> bool" where
  "is_digit c = (let n = (of_char c :: nat) in 48 \<le> n \<and> n \<le> 57)"

definition is_alpha :: "char \<Rightarrow> bool" where
  "is_alpha c = (is_upper c \<or> is_lower c)"

definition is_space :: "char \<Rightarrow> bool" where
  "is_space c = (let n = (of_char c :: nat) in (9 \<le> n \<and> n \<le> 13) \<or> (28 \<le> n \<and> n \<le> 32))"

definition lower_char :: "char \<Rightarrow> char" where
  "lower_char c = (if is_upper c then char_of ((of_char c :: nat) + 32) else c)"

text \<open>\<^verbatim>\<open>s.lower()\<close>\<close>

definition lower :: "string \<Rightarrow> string" where
  "lower s = map lower_char s"

text \<open>\<^verbatim>\<open>needle in hay\<close> on strings: \<^verbatim>\<open>needle\<close> occurs as a contiguous block of \<^verbatim>\<open>hay\<close>.\<close>

fun contains :: "string \<Rightarrow> string \<Rightarrow> bool" where
  "contains needle [] = (needle = [])"
| "contains needle (c # cs) = (prefix needle (c # cs) \<or> contains needle cs)"

text \<open>\<^verbatim>\<open>s.strip()\<close> and \<^verbatim>\<open>s.replace(' ', '_')\<close>\<close>

definition strip :: "string \<Rightarrow> string" where
  "strip s = rev (dropWhile is_space (rev (dropWhile is_space s)))"

definition replace_char :: "char \<Rightarrow> char \<Rightarrow> string \<Rightarrow> string" where
  "replace_char a b s = map (\<lambda>c. if c = a then b else c) s"

text \<open>\<^verbatim>\<open>s.replace('_', '').replace('-', '')\<close>: both characters are deleted.\<close>

definition delete_char :: "char \<Rightarrow> string \<Rightarrow> string" where
  "delete_char a s = filter (\<lambda>c. c \<noteq> a) s"

section \<open>The regular expressions of the path parser\<close>

text \<open>
  Every pattern of \<^verbatim>\<open>path_parsing.py\<close> is a sequence of literals and of greedy bounded
  repetitions of one character class, some of them captured. \<^verbatim>\<open>re.search\<close> takes the
  leftmost start at which the backtracking matcher succeeds; a repetition first takes as
  many characters as it can and gives them back one at a time.
\<close>

datatype cls = Upper | Word | Digit

fun in_cls :: "cls \<Rightarrow> char \<Rightarrow> bool" where
  "in_cls Upper c = is_upper c"
| "in_cls Word c = (is_alpha c \<or> c = CHR ''_'')"
| "in_cls Digit c = is_digit c"

datatype re_item = Lit string | Rep cls nat "nat option" bool

fun re_match :: "re_item list \<Rightarrow> string \<Rightarrow> string list option"
  and re_backtrack :: "re_item list \<Rightarrow> bool \<Rightarrow> string \<Rightarrow> nat \<Rightarrow> nat \<Rightarrow> string list option"
where
  "re_match [] s = Some []"
| "re_match (Lit l # r) s =
     (if prefix l s then re_match r (drop (length l) s) else None)"
| "re_match (Rep c lo hi cap # r) s =
     (let n = length (takeWhile (in_cls c) s);
          k = (case hi of None \<Rightarrow> n | Some h \<Rightarrow> min h n)
      in re_backtrack r cap s lo k)"
| "re_backtrack r cap s lo k =
     (if k < lo then None
      else case re_match r (drop k s) of
             Some gs \<Rightarrow> Some (if cap then take k s # gs else gs)
           | None \<Rightarrow> (if k = 0 then None else re_backtrack r cap s lo (k - 1)))"

fun re_search :: "re_item list \<Rightarrow> string \<Rightarrow> string list option" where
  "re_search pat [] = re_match pat []"
| "re_search pat (c # cs) =
     (case re_match pat (c # cs) of Some gs \<Rightarrow> Some gs | None \<Rightarrow> re_search pat cs)"

text \<open>
  The loop \<^verbatim>\<open>for pattern in patterns: match = re.search(pattern, file_path); if match:
  return match.group(1)\<close>. Every pattern of the file has exactly one group.
\<close>

fun search_patterns :: "re_item list list \<Rightarrow> string \<Rightarrow> string option" where
  "search_patterns [] s = None"
| "search_patterns (p # ps) s =
     (case re_search p s of
        Some (g # gs) \<Rightarrow> Some g
      | Some [] \<Rightarrow> search_patterns ps s
      | None \<Rightarrow> search_patterns ps s)"

section \<open>Path parsing (\<^verbatim>\<open>tools/_util/path_parsing.py\<close>)\<close>

definition known_assets :: "string list" where
  "known_assets = [''AMZN'', ''CAT'', ''MSFT'', ''NVDA'', ''PG'', ''WMT'',
     ''EURUSD'', ''EURZAR'', ''GBPCNY'', ''GBPUSD'', ''GBPZAR'', ''USDZAR'']"

definition asset_patterns :: "re_item list list" where
  "asset_patterns =
    [[Lit ''/'', Rep Upper 3 (Some 6) True, Lit ''_''],
     [Rep Upper 3 (Some 6) True, Lit ''.csv''],
     [Rep Upper 3 (Some 6) True, Lit ''.png'']]"

definition parse_asset_from_path :: "string \<Rightarrow> string option" where
  "parse_asset_from_path file_path =
     (let path_lower = lower file_path in
      case find (\<lambda>asset. contains (lower asset) path_lower) known_assets of
        Some asset \<Rightarrow> Some asset
      | None \<Rightarrow> search_patterns asset_patterns file_path)"

definition known_models :: "string list" where
  "known_models = [''sGARCH_norm'', ''sGARCH_sstd'', ''eGARCH'', ''gjrGARCH'', ''TGARCH'',
     ''NF_sGARCH_norm'', ''NF_sGARCH_sstd'', ''NF_eGARCH'', ''NF_gjrGARCH'', ''NF_TGARCH'']"

definition model_patterns :: "re_item list list" where
  "model_patterns =
    [[Rep Word 1 None True, Lit ''_'', Rep Word 1 None False, Lit ''.csv''],
     [Rep Word 1 None True, Lit ''_'', Rep Word 1 None False, Lit ''.png''],
     [Rep Word 1 None True, Lit ''_results'']]"

definition parse_model_from_path :: "string \<Rightarrow> string option" where
  "parse_model_from_path file_path =
     (let path_lower = lower file_path in
      case find (\<lambda>model. contains (lower model) path_lower) known_models of
        Some model \<Rightarrow> Some model
      | None \<Rightarrow> search_patterns model_patterns file_path)"

definition parse_split_type_from_path :: "string \<Rightarrow> string option" where
  "parse_split_type_from_path file_path =
     (let path_lower = lower file_path in
      if contains ''tscv'' path_lower \<or> contains ''ts_cv'' path_lower
         \<or> contains ''cross_validation'' path_lower then Some ''tscv''
      else if contains ''chrono'' path_lower \<or> contains ''chronological'' path_lower
        then Some ''chrono''
      else if contains ''cv'' path_lower \<and> \<not> contains ''tscv'' path_lower then Some ''tscv''
      else Some ''chrono'')"


section \<open>Scalars, tables and exceptions\<close>

text \<open>
  A cell of a pandas table, or a Python scalar: \<^verbatim>\<open>None\<close>, the float \<^verbatim>\<open>nan\<close>, a finite
  number or a string. Finite floats are read as the real numbers they denote, so the
  arithmetic below is exact.
\<close>

datatype pyval = PNone | PNaN | PNum real | PStr string

datatype exn = ValueError string | TypeError string | KeyError string | OSError string

record dataframe =
  df_columns :: "string list"
  df_rows :: "pyval list list"

text \<open>\<^verbatim>\<open>df.shape\<close>: (number of rows, number of columns)\<close>

definition shape :: "dataframe \<Rightarrow> nat \<times> nat" where
  "shape df = (length (df_rows df), length (df_columns df))"

text \<open>\<^verbatim>\<open>pd.isna(x)\<close> on a scalar\<close>

fun isna :: "pyval \<Rightarrow> bool" where
  "isna PNone = True"
| "isna PNaN = True"
| "isna (PNum r) = False"
| "isna (PStr s) = False"

text \<open>
  The cell of a row in the column at position \<open>j\<close>; a row shorter than the header is
  padded with \<^verbatim>\<open>nan\<close>, as \<^verbatim>\<open>read_csv\<close> does.
\<close>

definition cell :: "pyval list \<Rightarrow> nat \<Rightarrow> pyval" where
  "cell row j = (if j < length row then row ! j else PNaN)"

text \<open>
  \<^verbatim>\<open>pd.api.types.is_numeric_dtype(df[col])\<close>: the column holds floats only (numbers and
  \<^verbatim>\<open>nan\<close>); a column with a string or \<^verbatim>\<open>None\<close> in it has dtype \<^verbatim>\<open>object\<close>.
\<close>

fun is_float :: "pyval \<Rightarrow> bool" where
  "is_float PNaN = True"
| "is_float (PNum r) = True"
| "is_float PNone = False"
| "is_float (PStr s) = False"

definition is_numeric_dtype :: "dataframe \<Rightarrow> nat \<Rightarrow> bool" where
  "is_numeric_dtype df j = list_all (\<lambda>row. is_float (cell row j)) (df_rows df)"

section \<open>The regression checker (\<^verbatim>\<open>tools/check_regression.py\<close>)\<close>

text \<open>
  A field name is the f-string \<^verbatim>\<open>{sheet}.{col}[{idx}]\<close> (no sheet in a CSV file); a failure
  is the message appended to \<^verbatim>\<open>self.failures\<close>, kept as the values its f-string formats.
\<close>

datatype field = Field "string option" string nat

datatype failure =
    NaN_mismatch field pyval pyval
  | Near_zero_mismatch field pyval pyval
  | Relative_difference field real real
  | String_mismatch field pyval pyval
  | Shape_mismatch "nat \<times> nat" "nat \<times> nat"
  | Column_mismatch "string list" "string list"
  | Error_reading string exn
  | Sheet_names_mismatch "string list" "string list"
  | Sheet_shape_mismatch string "nat \<times> nat" "nat \<times> nat"
  | Sheet_column_mismatch string

record checker =
  tolerance :: real
  failures :: "failure list"

text \<open>\<^verbatim>\<open>RegressionChecker(tolerance=1e-9)\<close>\<close>

definition new_checker :: "real \<Rightarrow> checker" where
  "new_checker t = \<lparr>tolerance = t, failures = []\<rparr>"

definition append_failure :: "checker \<Rightarrow> failure \<Rightarrow> checker" where
  "append_failure c f = c\<lparr>failures := failures c @ [f]\<rparr>"

text \<open>
  \<^verbatim>\<open>compare_numeric\<close>. \<^verbatim>\<open>abs\<close> and \<^verbatim>\<open>-\<close> raise \<^verbatim>\<open>TypeError\<close> on a string, which is what a
  cell of the baseline can be when the current column is numeric.
\<close>

fun compare_numeric :: "checker \<Rightarrow> pyval \<Rightarrow> pyval \<Rightarrow> field \<Rightarrow> exn + (bool \<times> checker)" where
  "compare_numeric c current expected field_name =
     (if isna current \<and> isna expected then Inr (True, c)
      else if isna current \<or> isna expected then
        Inr (False, append_failure c (NaN_mismatch field_name current expected))
      else case expected of
        PNum e \<Rightarrow>
          (case current of
             PNum x \<Rightarrow>
               (if \<bar>e\<bar> < 1 / 10 ^ 10 then
                  (if \<bar>x - e\<bar> > tolerance c then
                     Inr (False, append_failure c (Near_zero_mismatch field_name current expected))
                   else Inr (True, c))
                else
                  (let relative_diff = \<bar>x - e\<bar> / \<bar>e\<bar> in
                   if relative_diff > tolerance c then
                     Inr (False, append_failure c
                            (Relative_difference field_name relative_diff (tolerance c)))
                   else Inr (True, c)))
           | _ \<Rightarrow> Inl (TypeError ''unsupported operand type(s) for -''))
      | _ \<Rightarrow> Inl (TypeError ''bad operand type for abs()''))"

text \<open>
  \<^verbatim>\<open>str(x)\<close>. The decimal rendering of a float is a parameter \<open>fmt\<close> of the model.
\<close>

fun py_str :: "(real \<Rightarrow> string) \<Rightarrow> pyval \<Rightarrow> string" where
  "py_str fmt PNone = ''None''"
| "py_str fmt PNaN = ''nan''"
| "py_str fmt (PNum r) = fmt r"
| "py_str fmt (PStr s) = s"

definition compare_string ::
  "(real \<Rightarrow> string) \<Rightarrow> checker \<Rightarrow> pyval \<Rightarrow> pyval \<Rightarrow> field \<Rightarrow> bool \<times> checker" where
  "compare_string fmt c current expected field_name =
     (if py_str fmt current \<noteq> py_str fmt expected then
        (False, append_failure c (String_mismatch field_name current expected))
      else (True, c))"

text \<open>
  The two nested loops \<^verbatim>\<open>for col in current_df.columns: for idx in current_df.index\<close>.
  They run after the shapes and the column lists were found equal, so a column is
  addressed by its position in both tables. The result is the checker as the loop left
  it and the exception that stopped the loop, if one did: the failures appended before
  an exception stay in the list.
\<close>

fun check_cells ::
  "(real \<Rightarrow> string) \<Rightarrow> string option \<Rightarrow> string \<Rightarrow> bool \<Rightarrow> checker
     \<Rightarrow> (nat \<times> pyval \<times> pyval) list \<Rightarrow> checker \<times> exn option" where
  "check_cells fmt sheet col numeric c [] = (c, None)"
| "check_cells fmt sheet col numeric c ((idx, current_val, expected_val) # rest) =
     (if numeric then
        (case compare_numeric c current_val expected_val (Field sheet col idx) of
           Inl e \<Rightarrow> (c, Some e)
         | Inr (ok, c') \<Rightarrow> check_cells fmt sheet col numeric c' rest)
      else
        (case compare_string fmt c current_val expected_val (Field sheet col idx) of
           (ok, c') \<Rightarrow> check_cells fmt sheet col numeric c' rest))"

text \<open>
  \<^verbatim>\<open>df.loc[idx, col]\<close> for the column at position \<open>j\<close>. The loops below read a row
  of the baseline only after the two shapes were found equal, so the row is there; the
  accessor gives \<^verbatim>\<open>nan\<close> for a row that is not.
\<close>

definition df_cell :: "dataframe \<Rightarrow> nat \<Rightarrow> nat \<Rightarrow> pyval" where
  "df_cell df idx j = (if idx < length (df_rows df) then cell (df_rows df ! idx) j else PNaN)"

definition column_cells :: "dataframe \<Rightarrow> dataframe \<Rightarrow> nat \<Rightarrow> (nat \<times> pyval \<times> pyval) list" where
  "column_cells current_df expected_df j =
     map (\<lambda>idx. (idx, df_cell current_df idx j, df_cell expected_df idx j))
       [0 ..< length (df_rows current_df)]"

fun check_columns ::
  "(real \<Rightarrow> string) \<Rightarrow> string option \<Rightarrow> dataframe \<Rightarrow> dataframe \<Rightarrow> checker
     \<Rightarrow> nat list \<Rightarrow> checker \<times> exn option" where
  "check_columns fmt sheet current_df expected_df c [] = (c, None)"
| "check_columns fmt sheet current_df expected_df c (j # js) =
     (case check_cells fmt sheet (df_columns current_df ! j) (is_numeric_dtype current_df j) c
             (column_cells current_df expected_df j) of
        (c', Some e) \<Rightarrow> (c', Some e)
      | (c', None) \<Rightarrow> check_columns fmt sheet current_df expected_df c' js)"

definition check_values ::
  "(real \<Rightarrow> string) \<Rightarrow> string option \<Rightarrow> dataframe \<Rightarrow> dataframe \<Rightarrow> checker
     \<Rightarrow> checker \<times> exn option" where
  "check_values fmt sheet current_df expected_df c =
     check_columns fmt sheet current_df expected_df c [0 ..< length (df_columns current_df)]"

text \<open>
  \<^verbatim>\<open>check_csv_file\<close>. The two arguments \<open>current\<close> and \<open>expected\<close> are what
  \<^verbatim>\<open>pd.read_csv\<close> gives for the two files: a table, or the exception it raises.
\<close>

definition check_csv_file ::
  "(real \<Rightarrow> string) \<Rightarrow> checker \<Rightarrow> string \<Rightarrow> exn + dataframe \<Rightarrow> exn + dataframe
     \<Rightarrow> bool \<times> checker" where
  "check_csv_file fmt c current_file current expected =
     (case current of
        Inl e \<Rightarrow> (False, append_failure c (Error_reading current_file e))
      | Inr current_df \<Rightarrow>
     (case expected of
        Inl e \<Rightarrow> (False, append_failure c (Error_reading current_file e))
      | Inr expected_df \<Rightarrow>
          if shape current_df \<noteq> shape expected_df then
            (False, append_failure c (Shape_mismatch (shape current_df) (shape expected_df)))
          else if df_columns current_df \<noteq> df_columns expected_df then
            (False, append_failure c
               (Column_mismatch (df_columns current_df) (df_columns expected_df)))
          else
            (case check_values fmt None current_df expected_df c of
               (c', Some e) \<Rightarrow> (False, append_failure c' (Error_reading current_file e))
             | (c', None) \<Rightarrow> (failures c' = [], c'))))"

text \<open>
  A workbook as \<^verbatim>\<open>pd.ExcelFile\<close> and \<^verbatim>\<open>pd.read_excel(file, sheet_name=...)\<close> see it: the
  sheets in order, each a table or the exception its read raises.
\<close>

type_synonym workbook = "(string \<times> (exn + dataframe)) list"

definition sheet_names :: "workbook \<Rightarrow> string list" where
  "sheet_names wb = map fst wb"

definition read_excel :: "workbook \<Rightarrow> string \<Rightarrow> exn + dataframe" where
  "read_excel wb sheet_name =
     (case map_of wb sheet_name of
        None \<Rightarrow> Inl (ValueError sheet_name)
      | Some r \<Rightarrow> r)"

text \<open>The loop \<^verbatim>\<open>for sheet_name in current_xl.sheet_names\<close>, \<^verbatim>\<open>continue\<close> included.\<close>

fun check_sheets ::
  "(real \<Rightarrow> string) \<Rightarrow> workbook \<Rightarrow> workbook \<Rightarrow> checker \<Rightarrow> string list
     \<Rightarrow> checker \<times> exn option" where
  "check_sheets fmt current_xl expected_xl c [] = (c, None)"
| "check_sheets fmt current_xl expected_xl c (sheet_name # rest) =
     (case read_excel current_xl sheet_name of
        Inl e \<Rightarrow> (c, Some e)
      | Inr current_df \<Rightarrow>
     (case read_excel expected_xl sheet_name of
        Inl e \<Rightarrow> (c, Some e)
      | Inr expected_df \<Rightarrow>
          if shape current_df \<noteq> shape expected_df then
            check_sheets fmt current_xl expected_xl
              (append_failure c
                 (Sheet_shape_mismatch sheet_name (shape current_df) (shape expected_df)))
              rest
          else if df_columns current_df \<noteq> df_columns expected_df then
            check_sheets fmt current_xl expected_xl
              (append_failure c (Sheet_column_mismatch sheet_name)) rest
          else
            (case check_values fmt (Some sheet_name) current_df expected_df c of
               (c', Some e) \<Rightarrow> (c', Some e)
             | (c', None) \<Rightarrow> check_sheets fmt current_xl expected_xl c' rest)))"

definition check_excel_file ::
  "(real \<Rightarrow> string) \<Rightarrow> checker \<Rightarrow> string \<Rightarrow> exn + workbook \<Rightarrow> exn + workbook
     \<Rightarrow> bool \<times> checker" where
  "check_excel_file fmt c current_file current expected =
     (case current of
        Inl e \<Rightarrow> (False, append_failure c (Error_reading current_file e))
      | Inr current_xl \<Rightarrow>
     (case expected of
        Inl e \<Rightarrow> (False, append_failure c (Error_reading current_file e))
      | Inr expected_xl \<Rightarrow>
          if sheet_names current_xl \<noteq> sheet_names expected_xl then
            (False, append_failure c
               (Sheet_names_mismatch (sheet_names current_xl) (sheet_names expected_xl)))
          else
            (case check_sheets fmt current_xl expected_xl c (sheet_names current_xl) of
               (c', Some e) \<Rightarrow> (False, append_failure c' (Error_reading current_file e))
             | (c', None) \<Rightarrow> (failures c' = [], c'))))"

text \<open>
  \<^verbatim>\<open>check_metrics_directory\<close>, from the loop over the metric files on: a file of the
  directory is its name and what reading it gives, a CSV table or (for \<^verbatim>\<open>.xlsx\<close> and
  \<^verbatim>\<open>.xls\<close>) a workbook. Every file is checked against the same baseline file, which
  \<^verbatim>\<open>check_csv_file\<close> reads as a table and \<^verbatim>\<open>check_excel_file\<close> opens as a workbook.
\<close>

datatype metric_file = Csv_file string "exn + dataframe" | Excel_file string "exn + workbook"

fun check_metric_files ::
  "(real \<Rightarrow> string) \<Rightarrow> exn + dataframe \<Rightarrow> exn + workbook \<Rightarrow> bool \<Rightarrow> checker
     \<Rightarrow> metric_file list \<Rightarrow> bool \<times> checker" where
  "check_metric_files fmt expected_csv expected_xl all_passed c [] = (all_passed, c)"
| "check_metric_files fmt expected_csv expected_xl all_passed c (Csv_file name current # rest) =
     (case check_csv_file fmt c name current expected_csv of
        (passed, c') \<Rightarrow>
          check_metric_files fmt expected_csv expected_xl
            (if \<not> passed then False else all_passed) c' rest)"
| "check_metric_files fmt expected_csv expected_xl all_passed c (Excel_file name current # rest) =
     (case check_excel_file fmt c name current expected_xl of
        (passed, c') \<Rightarrow>
          check_metric_files fmt expected_csv expected_xl
            (if \<not> passed then False else all_passed) c' rest)"

definition check_metrics_directory ::
  "(real \<Rightarrow> string) \<Rightarrow> checker \<Rightarrow> bool \<Rightarrow> bool \<Rightarrow> exn + dataframe \<Rightarrow> exn + workbook
     \<Rightarrow> metric_file list \<Rightarrow> bool \<times> checker" where
  "check_metrics_directory fmt c current_dir_exists expected_file_exists expected_csv
       expected_xl metric_files =
     (if \<not> current_dir_exists then (False, c)
      else if \<not> expected_file_exists then (False, c)
      else check_metric_files fmt expected_csv expected_xl True c metric_files)"


section \<open>Path parsing, continued: fold, families, configuration hash, metadata\<close>

datatype fold_id = Fold int | Fold_all

definition fold_patterns :: "re_item list list" where
  "fold_patterns =
    [[Lit ''fold_'', Rep Digit 1 None True],
     [Lit ''fold'', Rep Digit 1 None True],
     [Rep Digit 1 None True, Lit ''_fold'']]"

definition digit_value :: "char \<Rightarrow> nat" where
  "digit_value c = (of_char c :: nat) - 48"

definition decimal_value :: "string \<Rightarrow> nat" where
  "decimal_value ds = foldl (\<lambda>n c. 10 * n + digit_value c) 0 ds"

text \<open>
  \<^verbatim>\<open>int(s)\<close> on a string. Python's integers are unbounded, but CPython refuses to convert
  a decimal string of more than \<^verbatim>\<open>sys.get_int_max_str_digits()\<close> digits (4300 unless the
  interpreter is configured otherwise; 0 switches the limit off) and raises
  \<^verbatim>\<open>ValueError\<close>. The limit is the parameter \<open>max_str_digits\<close>.
\<close>

definition default_max_str_digits :: nat where
  "default_max_str_digits = 4300"

definition py_int :: "nat \<Rightarrow> string \<Rightarrow> exn + int" where
  "py_int max_str_digits s =
     (if s = [] \<or> \<not> list_all is_digit s then
        Inl (ValueError ''invalid literal for int() with base 10'')
      else if max_str_digits \<noteq> 0 \<and> length s > max_str_digits then
        Inl (ValueError ''Exceeds the limit for integer string conversion'')
      else Inr (int (decimal_value s)))"

definition parse_fold_from_path :: "nat \<Rightarrow> string \<Rightarrow> exn + fold_id" where
  "parse_fold_from_path max_str_digits file_path =
     (case search_patterns fold_patterns file_path of
        Some digits \<Rightarrow>
          (case py_int max_str_digits digits of
             Inl e \<Rightarrow> Inl e
           | Inr n \<Rightarrow> Inr (Fold n))
      | None \<Rightarrow> Inr Fold_all)"

definition parse_model_family :: "string \<Rightarrow> string" where
  "parse_model_family model_name =
     (if model_name \<noteq> [] \<and> (contains ''NF'' model_name \<or> contains ''Flow'' model_name
           \<or> contains ''nf'' (lower model_name))
      then ''NF-GARCH'' else ''GARCH'')"

text \<open>\<^verbatim>\<open>s.isalpha()\<close>: at least one character, and letters only.\<close>

definition isalpha :: "string \<Rightarrow> bool" where
  "isalpha s = (s \<noteq> [] \<and> list_all is_alpha s)"

definition parse_asset_type :: "string \<Rightarrow> string" where
  "parse_asset_type asset_name =
     (if asset_name \<noteq> [] then
        (if length asset_name = 6 \<and> isalpha asset_name then ''FX'' else ''Equity'')
      else ''Unknown'')"

text \<open>
  The file system, as far as the path parser reads it: whether a path exists, what
  \<^verbatim>\<open>pd.read_csv(path, nrows=1).columns\<close> and the keys of a JSON file are, and what loading,
  canonicalising and hashing a configuration file gives (the first 8 hexadecimal
  characters of the digest). Each read gives its value or the exception it raises.
\<close>

record env =
  path_exists :: "string \<Rightarrow> bool"
  csv_header :: "string \<Rightarrow> exn + string list"
  json_keys :: "string \<Rightarrow> exn + string list"
  config_digest :: "string \<Rightarrow> exn + string"

text \<open>\<^verbatim>\<open>parse_metric_from_content\<close>: every exception is caught and leaves the empty list.\<close>

definition parse_metric_from_content :: "env \<Rightarrow> string \<Rightarrow> string list" where
  "parse_metric_from_content fs file_path =
     (if suffix ''.csv'' file_path then
        (case csv_header fs file_path of Inl e \<Rightarrow> [] | Inr columns \<Rightarrow> columns)
      else if suffix ''.json'' file_path then
        (case json_keys fs file_path of Inl e \<Rightarrow> [] | Inr keys \<Rightarrow> keys)
      else [])"

text \<open>\<^verbatim>\<open>os.path.dirname\<close> and \<^verbatim>\<open>os.path.join\<close> of \<^verbatim>\<open>posixpath\<close>\<close>

definition dirname :: "string \<Rightarrow> string" where
  "dirname p =
     (let head = rev (dropWhile (\<lambda>c. c \<noteq> CHR ''/'') (rev p)) in
      if head \<noteq> [] \<and> \<not> list_all (\<lambda>c. c = CHR ''/'') head
      then rev (dropWhile (\<lambda>c. c = CHR ''/'') (rev head))
      else head)"

definition path_join :: "string \<Rightarrow> string \<Rightarrow> string" where
  "path_join a b =
     (if prefix ''/'' b then b
      else if a = [] \<or> suffix ''/'' a then a @ b
      else a @ ''/'' @ b)"

definition config_files :: "string list" where
  "config_files = [''config.json'', ''config.yaml'', ''config.yml'',
     ''params.json'', ''params.yaml'', ''params.yml'',
     ''settings.json'', ''settings.yaml'', ''settings.yml'']"

text \<open>
  The loop of \<^verbatim>\<open>extract_config_hash\<close>: the first candidate that exists and loads gives
  the hash; a candidate whose load raises is skipped (\<^verbatim>\<open>except Exception: continue\<close>).
\<close>

fun config_hash_loop :: "env \<Rightarrow> string \<Rightarrow> string list \<Rightarrow> string option" where
  "config_hash_loop fs file_dir [] = None"
| "config_hash_loop fs file_dir (config_file # rest) =
     (let config_path = path_join file_dir config_file in
      if path_exists fs config_path then
        (case config_digest fs config_path of
           Inr h \<Rightarrow> Some h
         | Inl e \<Rightarrow> config_hash_loop fs file_dir rest)
      else config_hash_loop fs file_dir rest)"

definition extract_config_hash :: "env \<Rightarrow> string \<Rightarrow> string option" where
  "extract_config_hash fs file_path = config_hash_loop fs (dirname file_path) config_files"

record metadata =
  md_file_path :: string
  md_asset :: "string option"
  md_model :: "string option"
  md_split_type :: "string option"
  md_fold :: fold_id
  md_metrics :: "string list"
  md_config_hash :: "string option"
  md_model_family :: "string option"
  md_asset_type :: "string option"

text \<open>
  \<^verbatim>\<open>parse_file_metadata\<close>. The dictionary literal evaluates its values in order; the only
  one that can raise is the fold, and then no dictionary is returned.
\<close>

definition parse_file_metadata :: "env \<Rightarrow> nat \<Rightarrow> string \<Rightarrow> exn + metadata" where
  "parse_file_metadata fs max_str_digits file_path =
     (let asset = parse_asset_from_path file_path;
          model = parse_model_from_path file_path;
          split_type = parse_split_type_from_path file_path
      in case parse_fold_from_path max_str_digits file_path of
           Inl e \<Rightarrow> Inl e
         | Inr fold_v \<Rightarrow>
             Inr \<lparr>md_file_path = file_path,
                  md_asset = asset,
                  md_model = model,
                  md_split_type = split_type,
                  md_fold = fold_v,
                  md_metrics = parse_metric_from_content fs file_path,
                  md_config_hash = extract_config_hash fs file_path,
                  md_model_family =
                    (case model of
                       Some m \<Rightarrow> if m \<noteq> [] then Some (parse_model_family m) else None
                     | None \<Rightarrow> None),
                  md_asset_type =
                    (case asset of
                       Some a \<Rightarrow> if a \<noteq> [] then Some (parse_asset_type a) else None
                     | None \<Rightarrow> None)\<rparr>)"

definition normalizations :: "(string \<times> string) list" where
  "normalizations =
    [(''loglik'', ''LogLikelihood''), (''log_likelihood'', ''LogLikelihood''),
     (''loglikelihood'', ''LogLikelihood''), (''aic'', ''AIC''), (''bic'', ''BIC''),
     (''mse'', ''MSE''), (''mae'', ''MAE''), (''mape'', ''MAPE''), (''rmse'', ''RMSE''),
     (''r_squared'', ''R_Squared''), (''r2'', ''R_Squared''),
     (''correlation'', ''Correlation''), (''win_rate'', ''Win_Rate''),
     (''violation_rate'', ''Violation_Rate''), (''p_value'', ''P_Value''),
     (''qstat'', ''QStat''), (''archlm_pval'', ''ARCHLM_PValue'')]"

definition squash :: "string \<Rightarrow> string" where
  "squash s = delete_char CHR ''-'' (delete_char CHR ''_'' (lower s))"

definition normalize_metric_name :: "string \<Rightarrow> string" where
  "normalize_metric_name metric_name =
     (case find (\<lambda>(key, v). squash key = squash metric_name) normalizations of
        Some (key, v) \<Rightarrow> v
      | None \<Rightarrow> metric_name)"


section \<open>The results collector (\<^verbatim>\<open>tools/collect_results.py\<close>)\<close>

text \<open>
  One record of the long format. \<^verbatim>\<open>asset\<close> and \<^verbatim>\<open>model\<close> hold whatever the row's cell
  or the metadata gave; the keys \<^verbatim>\<open>original_<col>\<close> are kept with the values under
  that column label. The \<^verbatim>\<open>timestamp\<close> key, read from the wall clock for each record,
  is left out.
\<close>

record result_record =
  rr_asset :: pyval
  rr_model :: pyval
  rr_model_family :: string
  rr_split_type :: "string option"
  rr_fold :: fold_id
  rr_metric :: string
  rr_value :: pyval
  rr_run_id :: string
  rr_source_file :: string
  rr_sheet_name :: "string option"
  rr_row_index :: nat
  rr_asset_type :: "string option"
  rr_config_hash :: "string option"
  rr_original :: "(string \<times> pyval list) list"

text \<open>\<^verbatim>\<open>df.empty\<close>: an axis of length 0\<close>

definition df_empty :: "dataframe \<Rightarrow> bool" where
  "df_empty df = (df_rows df = [] \<or> df_columns df = [])"

definition clean_column :: "string \<Rightarrow> string" where
  "clean_column col = replace_char CHR '' '' CHR ''_'' (strip col)"

definition find_column :: "string list \<Rightarrow> string list \<Rightarrow> string option" where
  "find_column columns possible_names = find (\<lambda>name. name \<in> set columns) possible_names"

definition metric_indicators :: "string list" where
  "metric_indicators = [''mse'', ''mae'', ''mape'', ''rmse'', ''aic'', ''bic'', ''loglik'',
     ''log_likelihood'', ''win_rate'', ''accuracy'', ''r_squared'', ''correlation'',
     ''p_value'', ''violation_rate'', ''qstat'', ''archlm'', ''convergence'', ''error'',
     ''loss'', ''avg_mse'', ''avg_mae'', ''avg_mape'']"

definition is_metric_column :: "string \<Rightarrow> bool" where
  "is_metric_column col =
     (if list_ex (\<lambda>indicator. contains indicator (lower col)) metric_indicators then True
      else col \<notin> set [''asset'', ''model'', ''Asset'', ''Model'', ''index'', ''Index''])"

definition get_metric_columns :: "string list \<Rightarrow> string list" where
  "get_metric_columns columns = filter is_metric_column columns"

text \<open>
  \<^verbatim>\<open>row[col]\<close>: the values of the row under the label \<open>col\<close>. A label the header has
  once gives a scalar; a label it has twice gives a Series.
\<close>

definition row_values :: "string list \<Rightarrow> pyval list \<Rightarrow> string \<Rightarrow> pyval list" where
  "row_values columns row col =
     map (\<lambda>j. cell row j) (filter (\<lambda>j. columns ! j = col) [0 ..< length columns])"

text \<open>
  \<^verbatim>\<open>row[col]\<close> where the code takes its truth value (\<^verbatim>\<open>x or default\<close>,
  \<^verbatim>\<open>if pd.notna(x)\<close>): a Series of several values raises \<^verbatim>\<open>ValueError\<close> there.
\<close>

definition row_scalar :: "string list \<Rightarrow> pyval list \<Rightarrow> string \<Rightarrow> exn + pyval" where
  "row_scalar columns row col =
     (case row_values columns row col of
        [] \<Rightarrow> Inl (KeyError col)
      | [v] \<Rightarrow> Inr v
      | v # w # vs \<Rightarrow> Inl (ValueError ''The truth value of a Series is ambiguous''))"

definition get_value :: "string list \<Rightarrow> pyval list \<Rightarrow> string option \<Rightarrow> exn + pyval" where
  "get_value columns row col =
     (case col of
        None \<Rightarrow> Inr PNone
      | Some name \<Rightarrow> if name \<in> set columns then row_scalar columns row name else Inr PNone)"

text \<open>Python's truth value of a scalar: \<^verbatim>\<open>None\<close>, \<^verbatim>\<open>0\<close> and \<^verbatim>\<open>''\<close> are false, \<^verbatim>\<open>nan\<close> is true.\<close>

fun truthy :: "pyval \<Rightarrow> bool" where
  "truthy PNone = False"
| "truthy PNaN = True"
| "truthy (PNum r) = (r \<noteq> 0)"
| "truthy (PStr s) = (s \<noteq> [])"

definition opt_str :: "string option \<Rightarrow> pyval" where
  "opt_str x = (case x of None \<Rightarrow> PNone | Some s \<Rightarrow> PStr s)"

text \<open>\<^verbatim>\<open>_infer_model_family\<close>: \<^verbatim>\<open>'NF' in model\<close> raises \<^verbatim>\<open>TypeError\<close> on a float.\<close>

fun infer_model_family :: "pyval \<Rightarrow> exn + string" where
  "infer_model_family (PStr model) =
     Inr (if model \<noteq> [] \<and> (contains ''NF'' model \<or> contains ''Flow'' model
                \<or> contains ''nf'' (lower model))
          then ''NF-GARCH'' else ''GARCH'')"
| "infer_model_family PNone = Inr ''GARCH''"
| "infer_model_family PNaN = Inl (TypeError ''argument of type float is not iterable'')"
| "infer_model_family (PNum r) =
     (if r = 0 then Inr ''GARCH''
      else Inl (TypeError ''argument of type float is not iterable''))"

text \<open>
  \<^verbatim>\<open>float(x)\<close>. What \<^verbatim>\<open>float\<close> makes of a string is the parameter \<open>str_float\<close>: a finite
  number, \<^verbatim>\<open>nan\<close> (\<open>None\<close>) or a \<^verbatim>\<open>ValueError\<close>.
\<close>

fun py_float :: "(string \<Rightarrow> exn + real option) \<Rightarrow> pyval \<Rightarrow> exn + pyval" where
  "py_float str_float (PNum r) = Inr (PNum r)"
| "py_float str_float PNaN = Inr PNaN"
| "py_float str_float PNone = Inl (TypeError ''float() argument must be a string or a number'')"
| "py_float str_float (PStr s) =
     (case str_float s of
        Inl e \<Rightarrow> Inl e
      | Inr None \<Rightarrow> Inr PNaN
      | Inr (Some r) \<Rightarrow> Inr (PNum r))"

text \<open>The asset and the model of a row, lines 167 to 189 of the source.\<close>

definition row_asset_model ::
  "metadata \<Rightarrow> string list \<Rightarrow> string option \<Rightarrow> string option \<Rightarrow> pyval list
     \<Rightarrow> exn + (pyval \<times> pyval)" where
  "row_asset_model md columns asset_col model_col row =
     (case get_value columns row asset_col of
        Inl e \<Rightarrow> Inl e
      | Inr a \<Rightarrow>
     (case get_value columns row model_col of
        Inl e \<Rightarrow> Inl e
      | Inr m \<Rightarrow>
          (let asset0 = (if truthy a then a else opt_str (md_asset md));
               model0 = (if truthy m then m else opt_str (md_model md));
               file_path = md_file_path md;
               (asset1, model1) =
                 (if asset0 = PStr ''Unknown'' \<and> model0 = PStr ''Unknown'' then
                    (if contains ''model_ranking'' file_path then
                       (PStr ''All_Assets'', PStr ''Summary'')
                     else if contains ''forecast_accuracy'' file_path then
                       (PStr ''All_Assets'', PStr ''Summary'')
                     else (PStr ''Unknown'', PStr ''Unknown''))
                  else (asset0, model0));
               asset = (if isna asset1 \<or> asset1 = PStr ''nan'' then PStr ''All_Assets''
                        else asset1);
               model = (if isna model1 \<or> model1 = PStr ''nan'' then PStr ''Summary''
                        else model1)
           in Inr (asset, model))))"

definition record_model_family :: "metadata \<Rightarrow> pyval \<Rightarrow> exn + string" where
  "record_model_family md model =
     (let source_file = md_file_path md in
      if contains ''nf_generated_residuals'' source_file then Inr ''NF-GARCH''
      else (case md_model_family md of
              Some f \<Rightarrow> if f \<noteq> [] then Inr f else infer_model_family model
            | None \<Rightarrow> infer_model_family model))"

definition original_columns ::
  "string list \<Rightarrow> string option \<Rightarrow> string option \<Rightarrow> string list \<Rightarrow> pyval list
     \<Rightarrow> (string \<times> pyval list) list" where
  "original_columns columns asset_col model_col metric_cols row =
     map (\<lambda>col. (col, row_values columns row col))
       (filter (\<lambda>col. Some col \<noteq> asset_col \<and> Some col \<noteq> model_col \<and> col \<notin> set metric_cols)
          columns)"

text \<open>The loop \<^verbatim>\<open>for metric_col in metric_cols\<close> of one row.\<close>

fun metric_records ::
  "string \<Rightarrow> (string \<Rightarrow> exn + real option) \<Rightarrow> metadata \<Rightarrow> string option \<Rightarrow> string list
     \<Rightarrow> (string \<times> pyval list) list \<Rightarrow> nat \<Rightarrow> pyval list \<Rightarrow> pyval \<Rightarrow> pyval
     \<Rightarrow> string list \<Rightarrow> exn + result_record list" where
  "metric_records run_id str_float md sheet_name columns originals idx row asset model [] = Inr []"
| "metric_records run_id str_float md sheet_name columns originals idx row asset model
       (metric_col # rest) =
     (case row_scalar columns row metric_col of
        Inl e \<Rightarrow> Inl e
      | Inr v \<Rightarrow>
          if \<not> isna v then
            (case record_model_family md model of
               Inl e \<Rightarrow> Inl e
             | Inr model_family \<Rightarrow>
            (case py_float str_float v of
               Inl e \<Rightarrow> Inl e
             | Inr x \<Rightarrow>
            (case metric_records run_id str_float md sheet_name columns originals idx row
                    asset model rest of
               Inl e \<Rightarrow> Inl e
             | Inr records \<Rightarrow>
                 Inr (\<lparr>rr_asset = asset,
                       rr_model = model,
                       rr_model_family = model_family,
                       rr_split_type = md_split_type md,
                       rr_fold = md_fold md,
                       rr_metric = normalize_metric_name metric_col,
                       rr_value = (if \<not> isna v then x else PNone),
                       rr_run_id = run_id,
                       rr_source_file = md_file_path md,
                       rr_sheet_name = sheet_name,
                       rr_row_index = idx,
                       rr_asset_type = md_asset_type md,
                       rr_config_hash = md_config_hash md,
                       rr_original = originals\<rparr> # records))))
          else
            metric_records run_id str_float md sheet_name columns originals idx row
              asset model rest)"

text \<open>The loop \<^verbatim>\<open>for idx, row in df.iterrows()\<close>.\<close>

fun row_records ::
  "string \<Rightarrow> (string \<Rightarrow> exn + real option) \<Rightarrow> metadata \<Rightarrow> string option \<Rightarrow> string list
     \<Rightarrow> string option \<Rightarrow> string option \<Rightarrow> string list \<Rightarrow> (nat \<times> pyval list) list
     \<Rightarrow> exn + result_record list" where
  "row_records run_id str_float md sheet_name columns asset_col model_col metric_cols [] = Inr []"
| "row_records run_id str_float md sheet_name columns asset_col model_col metric_cols
       ((idx, row) # rest) =
     (case row_asset_model md columns asset_col model_col row of
        Inl e \<Rightarrow> Inl e
      | Inr (asset, model) \<Rightarrow>
     (case metric_records run_id str_float md sheet_name columns
             (original_columns columns asset_col model_col metric_cols row)
             idx row asset model metric_cols of
        Inl e \<Rightarrow> Inl e
      | Inr records \<Rightarrow>
     (case row_records run_id str_float md sheet_name columns asset_col model_col
             metric_cols rest of
        Inl e \<Rightarrow> Inl e
      | Inr later \<Rightarrow> Inr (records @ later))))"

text \<open>\<^verbatim>\<open>_process_dataframe\<close>; \<open>Inl\<close> is the exception that leaves it.\<close>

definition process_dataframe ::
  "string \<Rightarrow> (string \<Rightarrow> exn + real option) \<Rightarrow> dataframe \<Rightarrow> metadata \<Rightarrow> string option
     \<Rightarrow> exn + result_record list" where
  "process_dataframe run_id str_float df md sheet_name =
     (if df_empty df then Inr []
      else
        (let columns = map clean_column (df_columns df);
             asset_col = find_column columns [''asset'', ''Asset'', ''ASSET'', ''symbol'', ''Symbol''];
             model_col = find_column columns [''model'', ''Model'', ''MODEL'', ''method'', ''Method''];
             metric_cols = get_metric_columns columns
         in row_records run_id str_float md sheet_name columns asset_col model_col metric_cols
              (zip [0 ..< length (df_rows df)] (df_rows df))))"

text \<open>
  \<^verbatim>\<open>process_file\<close>. A file is what its suffix and its read give: a table for \<^verbatim>\<open>.csv\<close>
  and (after \<^verbatim>\<open>json_normalize\<close>) for \<^verbatim>\<open>.json\<close>, the sheets in order for \<^verbatim>\<open>.xlsx\<close>, or
  an unsupported suffix. Any exception puts the file on \<^verbatim>\<open>skipped_files\<close> and gives no
  records.
\<close>

datatype file_data =
    Csv "exn + dataframe"
  | Xlsx "exn + (string \<times> dataframe) list"
  | Json "exn + dataframe"
  | Unsupported

fun sheet_records ::
  "string \<Rightarrow> (string \<Rightarrow> exn + real option) \<Rightarrow> metadata \<Rightarrow> (string \<times> dataframe) list
     \<Rightarrow> exn + result_record list" where
  "sheet_records run_id str_float md [] = Inr []"
| "sheet_records run_id str_float md ((sheet_name, sheet_df) # rest) =
     (case process_dataframe run_id str_float sheet_df md (Some sheet_name) of
        Inl e \<Rightarrow> Inl e
      | Inr sheet_data \<Rightarrow>
     (case sheet_records run_id str_float md rest of
        Inl e \<Rightarrow> Inl e
      | Inr all_data \<Rightarrow> Inr (sheet_data @ all_data)))"

definition file_records ::
  "string \<Rightarrow> (string \<Rightarrow> exn + real option) \<Rightarrow> env \<Rightarrow> nat \<Rightarrow> string \<Rightarrow> file_data
     \<Rightarrow> exn + result_record list" where
  "file_records run_id str_float fs max_str_digits file_path content =
     (case parse_file_metadata fs max_str_digits file_path of
        Inl e \<Rightarrow> Inl e
      | Inr md \<Rightarrow>
     (case content of
        Csv r \<Rightarrow>
          (case r of Inl e \<Rightarrow> Inl e
           | Inr df \<Rightarrow> process_dataframe run_id str_float df md None)
      | Xlsx r \<Rightarrow>
          (case r of Inl e \<Rightarrow> Inl e
           | Inr excel_data \<Rightarrow> sheet_records run_id str_float md excel_data)
      | Json r \<Rightarrow>
          (case r of Inl e \<Rightarrow> Inl e
           | Inr df \<Rightarrow> process_dataframe run_id str_float df md None)
      | Unsupported \<Rightarrow> Inr []))"

definition process_file ::
  "string \<Rightarrow> (string \<Rightarrow> exn + real option) \<Rightarrow> env \<Rightarrow> nat \<Rightarrow> (string \<times> exn) list
     \<Rightarrow> string \<Rightarrow> file_data \<Rightarrow> result_record list \<times> (string \<times> exn) list" where
  "process_file run_id str_float fs max_str_digits skipped_files file_path content =
     (case file_records run_id str_float fs max_str_digits file_path content of
        Inl e \<Rightarrow> ([], skipped_files @ [(file_path, e)])
      | Inr records \<Rightarrow> (records, skipped_files))"

section \<open>The summary tables (\<^verbatim>\<open>create_summary_tables\<close>)\<close>










section \<open>Concrete inputs\<close>

text \<open>
  A checker with the default tolerance, one with the tolerance 1/4, and the field of a
  cell.
\<close>

definition c0 :: checker where
  "c0 = new_checker (1 / 10 ^ 9)"



text \<open>Tables and workbooks for the regression checker; \<open>fmt0\<close> renders every number as the empty string.\<close>

definition fmt0 :: "real \<Rightarrow> string" where
  "fmt0 r = []"

definition df_a1 :: dataframe where
  "df_a1 = \<lparr>df_columns = [''MSE''], df_rows = [[PNum 1]]\<rparr>"

definition df_a2 :: dataframe where
  "df_a2 = \<lparr>df_columns = [''MSE''], df_rows = [[PNum 5], [PNum 2]]\<rparr>"

definition df_a5 :: dataframe where
  "df_a5 = \<lparr>df_columns = [''MSE''], df_rows = [[PNum 5]]\<rparr>"

definition df_ab :: dataframe where
  "df_ab = \<lparr>df_columns = [''a'', ''b''], df_rows = [[PNum 1, PNum 2]]\<rparr>"

definition df_ac :: dataframe where
  "df_ac = \<lparr>df_columns = [''a'', ''c''], df_rows = [[PNum 5, PNum 2]]\<rparr>"

definition wb_current :: workbook where
  "wb_current = [(''S1'', Inr df_ab), (''S2'', Inr df_a2), (''S3'', Inr df_a1)]"

definition wb_expected :: workbook where
  "wb_expected = [(''S1'', Inr df_ac), (''S2'', Inr df_a1), (''S3'', Inr df_a5)]"

definition wb_other :: workbook where
  "wb_other = [(''S1'', Inr df_ac), (''T'', Inr df_a1), (''S3'', Inr df_a5)]"

definition c1 :: checker where
  "c1 = append_failure c0 (Shape_mismatch (2, 1) (1, 1))"




text \<open>
  Inputs for the collector: a \<^verbatim>\<open>float\<close> that rejects every string, a file system without
  configuration files, the single-row table of the round-trip property, a table with two
  missing cells, and paths with the metadata and the records they give.
\<close>

definition sf0 :: "string \<Rightarrow> exn + real option" where
  "sf0 s = Inl (ValueError s)"

definition fs0 :: env where
  "fs0 = \<lparr>path_exists = (\<lambda>p. False), csv_header = (\<lambda>p. Inl (OSError p)),
          json_keys = (\<lambda>p. Inl (OSError p)), config_digest = (\<lambda>p. Inl (OSError p))\<rparr>"

definition df_single :: dataframe where
  "df_single = \<lparr>df_columns = [''Model'', ''Asset'', ''MSE''],
                 df_rows = [[PStr ''sGARCH'', PStr ''AMZN'', PNum (1 / 100)]]\<rparr>"


definition md0 :: metadata where
  "md0 = \<lparr>md_file_path = ''outputs/r.csv'', md_asset = None, md_model = None,
           md_split_type = Some ''chrono'', md_fold = Fold_all, md_metrics = [],
           md_config_hash = None, md_model_family = None, md_asset_type = None\<rparr>"


definition nf_path :: string where
  "nf_path = ''nf_generated_residuals/sGARCH_norm_equity_AMZN_residuals_synthetic.csv''"

definition records_nf :: "result_record list" where
  "records_nf =
  [\<lparr>rr_asset = PStr ''AMZN'', rr_model = PStr ''sGARCH'',
         rr_model_family = ''NF-GARCH'', rr_split_type = Some ''chrono'',
         rr_fold = Fold_all, rr_metric = ''MSE'', rr_value = PNum (1 / 100),
         rr_run_id = ''run'', rr_source_file = nf_path,
         rr_sheet_name = None, rr_row_index = 0, rr_asset_type = Some ''Equity'',
         rr_config_hash = None, rr_original = []\<rparr>]"











section \<open>Substrings\<close>

lemma contains_iff_sublist: "contains needle hay \<longleftrightarrow> sublist needle hay"
  by (induction hay) (auto simp: sublist_Cons_right)

lemma contains_trans: "contains a b \<Longrightarrow> contains b c \<Longrightarrow> contains a c"
  unfolding contains_iff_sublist by (rule sublist_order.order_trans)

lemma contains_lower: "contains a b \<Longrightarrow> contains (lower a) (lower b)"
  unfolding contains_iff_sublist lower_def by (rule map_mono_sublist)

section \<open>The numeric comparison\<close>



section \<open>The model vocabulary\<close>

text \<open>
  C2. The claim is that a path with the token \<^verbatim>\<open>NF_sGARCH_norm\<close> gives the model
  \<^verbatim>\<open>NF_sGARCH_norm\<close>, the longest vocabulary entry in it. The loop over \<^verbatim>\<open>known_models\<close>
  returns the first entry found, and \<^verbatim>\<open>sGARCH_norm\<close> stands before \<^verbatim>\<open>NF_sGARCH_norm\<close>:
  every such path gives \<^verbatim>\<open>sGARCH_norm\<close>.
\<close>

theorem parse_model_from_path_first_entry_wins:
  assumes "contains (lower ''NF_sGARCH_norm'') (lower file_path)"
  shows "parse_model_from_path file_path = Some ''sGARCH_norm''"
proof -
  have "contains (lower ''sGARCH_norm'') (lower ''NF_sGARCH_norm'')"
    by code_simp
  then have "contains (lower ''sGARCH_norm'') (lower file_path)"
    using assms by (rule contains_trans)
  then show ?thesis
    by (simp add: parse_model_from_path_def known_models_def Let_def)
qed

theorem parse_model_from_path_first_entry_wins_witness:
  "contains (lower ''NF_sGARCH_norm'') (lower ''outputs/NF_sGARCH_norm_results.csv'')
   \<and> parse_model_from_path ''outputs/NF_sGARCH_norm_results.csv'' = Some ''sGARCH_norm''"
proof -
  have h: "contains (lower ''NF_sGARCH_norm'') (lower ''outputs/NF_sGARCH_norm_results.csv'')"
    by code_simp
  from h parse_model_from_path_first_entry_wins [OF h] show ?thesis by simp
qed

section \<open>The split type\<close>

lemma contains_tscv_cv: "contains ''tscv'' s \<Longrightarrow> contains ''cv'' s"
proof -
  have "contains ''cv'' ''tscv''" by simp
  then show "contains ''tscv'' s \<Longrightarrow> contains ''cv'' s" by (rule contains_trans)
qed

text \<open>
  C7. The split type of a path, its keywords looked for in the lower-cased path, is
  \<^verbatim>\<open>tscv\<close> when it has \<^verbatim>\<open>tscv\<close>, \<^verbatim>\<open>ts_cv\<close> or \<^verbatim>\<open>cross_validation\<close>; otherwise \<^verbatim>\<open>chrono\<close>
  when it has \<^verbatim>\<open>chrono\<close> or \<^verbatim>\<open>chronological\<close>; otherwise \<^verbatim>\<open>tscv\<close> when it has \<^verbatim>\<open>cv\<close>;
  otherwise \<^verbatim>\<open>chrono\<close>. It is never \<^verbatim>\<open>None\<close>, and a path without any of the keywords
  gives \<^verbatim>\<open>chrono\<close>.
\<close>

theorem parse_split_type_from_path_spec:
  "parse_split_type_from_path p =
     Some (if contains ''tscv'' (lower p) \<or> contains ''ts_cv'' (lower p)
              \<or> contains ''cross_validation'' (lower p) then ''tscv''
           else if contains ''chrono'' (lower p) \<or> contains ''chronological'' (lower p)
             then ''chrono''
           else if contains ''cv'' (lower p) then ''tscv''
           else ''chrono'')
   \<and> parse_split_type_from_path p \<noteq> None
   \<and> (\<not> contains ''cv'' (lower p) \<and> \<not> contains ''chrono'' (lower p)
        \<and> \<not> contains ''cross_validation'' (lower p)
      \<longrightarrow> parse_split_type_from_path p = Some ''chrono'')"
proof -
  have c: "contains ''cv'' ''ts_cv''" "contains ''chrono'' ''chronological''"
    by simp_all
  have "parse_split_type_from_path p = Some ''chrono''"
    if a: "\<not> contains ''cv'' (lower p)" "\<not> contains ''chrono'' (lower p)"
      "\<not> contains ''cross_validation'' (lower p)"
  proof -
    from a c have "\<not> contains ''tscv'' (lower p)" "\<not> contains ''ts_cv'' (lower p)"
      "\<not> contains ''chronological'' (lower p)"
      using contains_tscv_cv contains_trans by blast+
    with a show ?thesis
      by (simp add: parse_split_type_from_path_def Let_def)
  qed
  then show ?thesis
    by (simp add: parse_split_type_from_path_def Let_def)
qed

theorem parse_split_type_from_path_witness:
  "\<not> contains ''cv'' (lower ''outputs/regular_results.csv'')
   \<and> \<not> contains ''chrono'' (lower ''outputs/regular_results.csv'')
   \<and> \<not> contains ''cross_validation'' (lower ''outputs/regular_results.csv'')
   \<and> parse_split_type_from_path ''outputs/regular_results.csv'' = Some ''chrono''"
proof -
  have h: "\<not> contains ''cv'' (lower ''outputs/regular_results.csv'')"
    "\<not> contains ''chrono'' (lower ''outputs/regular_results.csv'')"
    "\<not> contains ''cross_validation'' (lower ''outputs/regular_results.csv'')"
    by code_simp+
  with parse_split_type_from_path_spec [of "''outputs/regular_results.csv''"]
  show ?thesis by blast
qed

section \<open>Failures accumulate\<close>

lemma failures_append_failure: "failures (append_failure c f) = failures c @ [f]"
  by (simp add: append_failure_def)

lemma prefix_append_failure:
  "prefix xs (failures c) \<Longrightarrow> prefix xs (failures (append_failure c f))"
  by (simp add: failures_append_failure prefix_def) auto

lemma compare_numeric_grows:
  assumes "compare_numeric c current expected f = Inr (ok, c')"
  shows "prefix (failures c) (failures c')"
  using assms
  by (auto simp: Let_def failures_append_failure split: if_splits pyval.splits)

lemma compare_string_grows:
  assumes "compare_string fmt c current expected f = (ok, c')"
  shows "prefix (failures c) (failures c')"
  using assms
  by (auto simp: compare_string_def failures_append_failure split: if_splits)

lemma check_cells_grows:
  "prefix (failures c) (failures (fst (check_cells fmt sheet col numeric c cells)))"
proof (induction cells arbitrary: c)
  case Nil
  show ?case by simp
next
  case (Cons x cells)
  obtain idx cur bas where x: "x = (idx, cur, bas)"
    by (cases x) auto
  show ?case
  proof (cases numeric)
    case True
    show ?thesis
    proof (cases "compare_numeric c cur bas (Field sheet col idx)")
      case (Inl e)
      with True x show ?thesis by simp
    next
      case (Inr r)
      obtain ok c' where r: "r = (ok, c')" by (cases r) auto
      from Inr r have "prefix (failures c) (failures c')"
        using compare_numeric_grows by blast
      moreover have "prefix (failures c') (failures (fst (check_cells fmt sheet col numeric c' cells)))"
        by (rule Cons.IH)
      ultimately show ?thesis
        using True x Inr r by (auto intro: prefix_order.order_trans)
    qed
  next
    case False
    obtain ok c' where r: "compare_string fmt c cur bas (Field sheet col idx) = (ok, c')"
      by (cases "compare_string fmt c cur bas (Field sheet col idx)") auto
    then have "prefix (failures c) (failures c')"
      by (rule compare_string_grows)
    moreover have "prefix (failures c') (failures (fst (check_cells fmt sheet col numeric c' cells)))"
      by (rule Cons.IH)
    ultimately show ?thesis
      using False x r by (auto intro: prefix_order.order_trans)
  qed
qed

lemma check_columns_grows:
  "prefix (failures c) (failures (fst (check_columns fmt sheet cur bas c js)))"
proof (induction js arbitrary: c)
  case Nil
  show ?case by simp
next
  case (Cons j js)
  let ?r = "check_cells fmt sheet (df_columns cur ! j) (is_numeric_dtype cur j) c
             (column_cells cur bas j)"
  have 1: "prefix (failures c) (failures (fst ?r))"
    by (rule check_cells_grows)
  have 2: "prefix (failures (fst ?r)) (failures (fst (check_columns fmt sheet cur bas (fst ?r) js)))"
    by (rule Cons.IH)
  show ?case
    using 1 2 by (cases ?r) (auto split: option.splits intro: prefix_order.order_trans)
qed

lemma check_values_grows:
  "prefix (failures c) (failures (fst (check_values fmt sheet cur bas c)))"
  unfolding check_values_def by (rule check_columns_grows)

lemma check_sheets_grows:
  "prefix (failures c) (failures (fst (check_sheets fmt cur_xl exp_xl c names)))"
proof (induction names arbitrary: c)
  case Nil
  show ?case by simp
next
  case (Cons n names)
  note IH = Cons.IH
  show ?case
  proof (cases "read_excel cur_xl n")
    case Inl
    then show ?thesis by simp
  next
    case cur: (Inr cur)
    show ?thesis
    proof (cases "read_excel exp_xl n")
      case Inl
      with cur show ?thesis by simp
    next
      case bas: (Inr bas)
      let ?v = "check_values fmt (Some n) cur bas c"
      have v: "prefix (failures c) (failures (fst ?v))"
        by (rule check_values_grows)
      have a: "prefix (failures c) (failures (fst (check_sheets fmt cur_xl exp_xl (append_failure c f) names)))" for f
        using IH [of "append_failure c f"]
        by (auto simp: failures_append_failure dest: append_prefixD)
      have b: "prefix (failures c) (failures (fst (check_sheets fmt cur_xl exp_xl (fst ?v) names)))"
        using v IH [of "fst ?v"] by (rule prefix_order.order_trans)
      show ?thesis
        using cur bas a b v by (cases ?v) (auto split: option.splits)
    qed
  qed
qed

lemma check_csv_file_result:
  "fst (check_csv_file fmt c name current expected)
     = (failures (snd (check_csv_file fmt c name current expected)) = [])
   \<and> prefix (failures c) (failures (snd (check_csv_file fmt c name current expected)))"
proof (cases current)
  case Inl
  then show ?thesis
    by (simp add: check_csv_file_def failures_append_failure)
next
  case cur: (Inr cur)
  show ?thesis
  proof (cases expected)
    case Inl
    with cur show ?thesis
      by (simp add: check_csv_file_def failures_append_failure)
  next
    case bas: (Inr bas)
    let ?v = "check_values fmt None cur bas c"
    have v: "prefix (failures c) (failures (fst ?v))"
      by (rule check_values_grows)
    show ?thesis
      using cur bas v
      by (cases ?v) (auto simp: check_csv_file_def failures_append_failure prefix_def
            split: option.splits)
  qed
qed

lemma check_excel_file_result:
  "fst (check_excel_file fmt c name current expected)
     = (failures (snd (check_excel_file fmt c name current expected)) = [])
   \<and> prefix (failures c) (failures (snd (check_excel_file fmt c name current expected)))"
proof (cases current)
  case Inl
  then show ?thesis
    by (simp add: check_excel_file_def failures_append_failure)
next
  case cur: (Inr cur)
  show ?thesis
  proof (cases expected)
    case Inl
    with cur show ?thesis
      by (simp add: check_excel_file_def failures_append_failure)
  next
    case bas: (Inr bas)
    let ?v = "check_sheets fmt cur bas c (sheet_names cur)"
    have v: "prefix (failures c) (failures (fst ?v))"
      by (rule check_sheets_grows)
    show ?thesis
      using cur bas v
      by (cases ?v) (auto simp: check_excel_file_def failures_append_failure prefix_def
            split: option.splits)
  qed
qed

lemma nonempty_prefix: "prefix xs ys \<Longrightarrow> xs \<noteq> [] \<Longrightarrow> ys \<noteq> []"
  by (auto simp: prefix_def)

lemma check_metric_files_False:
  "fst (check_metric_files fmt ecsv exl False c files) = False"
proof (induction files arbitrary: c)
  case Nil
  show ?case by simp
next
  case (Cons f files)
  show ?case
    using Cons.IH by (cases f) (auto split: prod.splits)
qed

lemma check_metric_files_result:
  assumes "failures c \<noteq> []" "files \<noteq> []"
  shows "fst (check_metric_files fmt ecsv exl all_passed c files) = False"
proof (cases files)
  case Nil
  with assms show ?thesis by simp
next
  case (Cons f rest)
  show ?thesis
  proof (cases f)
    case (Csv_file name cur)
    let ?r = "check_csv_file fmt c name cur ecsv"
    have "failures (snd ?r) \<noteq> []"
      using check_csv_file_result [of fmt c name cur ecsv] assms(1) nonempty_prefix by blast
    then have "fst ?r = False"
      using check_csv_file_result [of fmt c name cur ecsv] by simp
    then show ?thesis
      using Cons Csv_file check_metric_files_False by (cases ?r) auto
  next
    case (Excel_file name cur)
    let ?r = "check_excel_file fmt c name cur exl"
    have "failures (snd ?r) \<noteq> []"
      using check_excel_file_result [of fmt c name cur exl] assms(1) nonempty_prefix by blast
    then have "fst ?r = False"
      using check_excel_file_result [of fmt c name cur exl] by simp
    then show ?thesis
      using Cons Excel_file check_metric_files_False by (cases ?r) auto
  qed
qed

text \<open>
  C10. The list of failures only grows, and \<^verbatim>\<open>check_csv_file\<close> and \<^verbatim>\<open>check_excel_file\<close>
  return whether the whole list is empty after the call. So on a checker that already
  holds a failure every later file check returns \<^verbatim>\<open>False\<close>, whatever the file, and so
  does \<^verbatim>\<open>check_metrics_directory\<close> on a directory with a file in it.
\<close>

theorem failures_are_cumulative:
  "fst (check_csv_file fmt c name current expected)
     = (failures (snd (check_csv_file fmt c name current expected)) = [])
   \<and> prefix (failures c) (failures (snd (check_csv_file fmt c name current expected)))
   \<and> fst (check_excel_file fmt c name current_xl expected_xl)
     = (failures (snd (check_excel_file fmt c name current_xl expected_xl)) = [])
   \<and> prefix (failures c) (failures (snd (check_excel_file fmt c name current_xl expected_xl)))
   \<and> (failures c \<noteq> [] \<longrightarrow>
        fst (check_csv_file fmt c name current expected) = False
        \<and> fst (check_excel_file fmt c name current_xl expected_xl) = False)
   \<and> (failures c \<noteq> [] \<and> files \<noteq> [] \<longrightarrow>
        fst (check_metrics_directory fmt c True True expected expected_xl files) = False)"
proof -
  note csv = check_csv_file_result [of fmt c name current expected]
  note xl = check_excel_file_result [of fmt c name current_xl expected_xl]
  have "fst (check_csv_file fmt c name current expected) = False" if "failures c \<noteq> []"
    using csv that nonempty_prefix by blast
  moreover have "fst (check_excel_file fmt c name current_xl expected_xl) = False"
    if "failures c \<noteq> []"
    using xl that nonempty_prefix by blast
  moreover have "fst (check_metrics_directory fmt c True True expected expected_xl files) = False"
    if "failures c \<noteq> []" "files \<noteq> []"
    using that by (simp add: check_metrics_directory_def check_metric_files_result)
  ultimately show ?thesis
    using csv xl by blast
qed

theorem failures_are_cumulative_witness:
  "failures c1 \<noteq> []
   \<and> check_csv_file fmt0 c0 ''metrics.csv'' (Inr df_a1) (Inr df_a1) = (True, c0)
   \<and> fst (check_csv_file fmt0 c1 ''metrics.csv'' (Inr df_a1) (Inr df_a1)) = False
   \<and> fst (check_metrics_directory fmt0 c1 True True (Inr df_a1) (Inr [])
            [Csv_file ''metrics.csv'' (Inr df_a1)]) = False"
proof -
  have h: "failures c1 \<noteq> []"
    by (simp add: c1_def failures_append_failure)
  have k: "[Csv_file ''metrics.csv'' (Inr df_a1)] \<noteq> []"
    by simp
  have ok: "check_csv_file fmt0 c0 ''metrics.csv'' (Inr df_a1) (Inr df_a1) = (True, c0)"
    by (simp add: check_csv_file_def check_values_def column_cells_def is_numeric_dtype_def
          df_cell_def cell_def df_a1_def c0_def new_checker_def shape_def)
  from failures_are_cumulative [of fmt0 c1 "''metrics.csv''" "Inr df_a1" "Inr df_a1"
      "Inr []" "Inr []" "[Csv_file ''metrics.csv'' (Inr df_a1)]"] h k ok
  show ?thesis by blast
qed

section \<open>Shape, column and sheet-name mismatches\<close>

text \<open>
  C5, as amended. Between two CSV tables a shape mismatch, or a column-name mismatch,
  appends exactly one failure and returns \<^verbatim>\<open>False\<close> at once: no cell is compared. Between
  two workbooks a sheet-name mismatch does the same: no sheet is compared. Inside a
  workbook whose sheet names agree, a sheet with a shape or column-name mismatch
  appends exactly one failure and the loop goes on with the remaining sheets.
\<close>

theorem mismatch_handling:
  "(shape cur \<noteq> shape bas \<longrightarrow>
      check_csv_file fmt c name (Inr cur) (Inr bas)
        = (False, append_failure c (Shape_mismatch (shape cur) (shape bas))))
   \<and> (shape cur = shape bas \<and> df_columns cur \<noteq> df_columns bas \<longrightarrow>
      check_csv_file fmt c name (Inr cur) (Inr bas)
        = (False, append_failure c (Column_mismatch (df_columns cur) (df_columns bas))))
   \<and> (sheet_names cur_xl \<noteq> sheet_names bas_xl \<longrightarrow>
      check_excel_file fmt c name (Inr cur_xl) (Inr bas_xl)
        = (False, append_failure c
             (Sheet_names_mismatch (sheet_names cur_xl) (sheet_names bas_xl))))
   \<and> (read_excel cur_xl n = Inr cur \<and> read_excel bas_xl n = Inr bas
        \<and> shape cur \<noteq> shape bas \<longrightarrow>
      check_sheets fmt cur_xl bas_xl c (n # rest)
        = check_sheets fmt cur_xl bas_xl
            (append_failure c (Sheet_shape_mismatch n (shape cur) (shape bas))) rest)
   \<and> (read_excel cur_xl n = Inr cur \<and> read_excel bas_xl n = Inr bas
        \<and> shape cur = shape bas \<and> df_columns cur \<noteq> df_columns bas \<longrightarrow>
      check_sheets fmt cur_xl bas_xl c (n # rest)
        = check_sheets fmt cur_xl bas_xl (append_failure c (Sheet_column_mismatch n)) rest)"
  by (simp add: check_csv_file_def check_excel_file_def)

lemmas checker_defs = check_csv_file_def check_excel_file_def check_values_def column_cells_def
  is_numeric_dtype_def df_cell_def cell_def shape_def append_failure_def c0_def new_checker_def
  sheet_names_def read_excel_def

theorem mismatch_handling_witness:
  "check_csv_file fmt0 c0 ''m.csv'' (Inr df_a2) (Inr df_a1)
     = (False, append_failure c0 (Shape_mismatch (2, 1) (1, 1)))
   \<and> check_csv_file fmt0 c0 ''m.csv'' (Inr df_ab) (Inr df_ac)
     = (False, append_failure c0 (Column_mismatch [''a'', ''b''] [''a'', ''c'']))
   \<and> check_excel_file fmt0 c0 ''m.xlsx'' (Inr wb_current) (Inr wb_other)
     = (False, append_failure c0
          (Sheet_names_mismatch [''S1'', ''S2'', ''S3''] [''S1'', ''T'', ''S3'']))
   \<and> check_sheets fmt0 wb_current wb_expected c0 [''S1'', ''S2'', ''S3'']
     = (c0\<lparr>failures :=
             [Sheet_column_mismatch ''S1'',
              Sheet_shape_mismatch ''S2'' (2, 1) (1, 1),
              Relative_difference (Field (Some ''S3'') ''MSE'' 0) (4 / 5) (1 / 10 ^ 9)]\<rparr>,
        None)"
proof -
  have s: "shape df_a2 = (2, 1)" "shape df_a1 = (1, 1)" "shape df_ab = (1, 2)"
    "shape df_ac = (1, 2)"
    by (simp_all add: shape_def df_a2_def df_a1_def df_ab_def df_ac_def)
  have cols: "df_columns df_ab = [''a'', ''b'']" "df_columns df_ac = [''a'', ''c'']"
    by (simp_all add: df_ab_def df_ac_def)
  have names: "sheet_names wb_current = [''S1'', ''S2'', ''S3'']"
    "sheet_names wb_other = [''S1'', ''T'', ''S3'']"
    by (simp_all add: sheet_names_def wb_current_def wb_other_def)
  have r: "read_excel wb_current ''S1'' = Inr df_ab" "read_excel wb_expected ''S1'' = Inr df_ac"
    "read_excel wb_current ''S2'' = Inr df_a2" "read_excel wb_expected ''S2'' = Inr df_a1"
    by (simp_all add: read_excel_def wb_current_def wb_expected_def)
  have 1: "check_csv_file fmt0 c0 ''m.csv'' (Inr df_a2) (Inr df_a1)
     = (False, append_failure c0 (Shape_mismatch (2, 1) (1, 1)))"
    using mismatch_handling [of df_a2 df_a1 fmt0 c0 "''m.csv''"] by (simp add: s)
  have 2: "check_csv_file fmt0 c0 ''m.csv'' (Inr df_ab) (Inr df_ac)
     = (False, append_failure c0 (Column_mismatch [''a'', ''b''] [''a'', ''c'']))"
    using mismatch_handling [of df_ab df_ac fmt0 c0 "''m.csv''"] by (simp add: s cols)
  have 3: "check_excel_file fmt0 c0 ''m.xlsx'' (Inr wb_current) (Inr wb_other)
     = (False, append_failure c0
          (Sheet_names_mismatch [''S1'', ''S2'', ''S3''] [''S1'', ''T'', ''S3'']))"
    using mismatch_handling [of df_ab df_ac fmt0 c0 "''m.xlsx''" wb_current wb_other]
    by (simp add: names)
  have 4: "check_sheets fmt0 wb_current wb_expected c0 [''S1'', ''S2'', ''S3'']
     = check_sheets fmt0 wb_current wb_expected
         (append_failure c0 (Sheet_column_mismatch ''S1'')) [''S2'', ''S3'']"
    using mismatch_handling [of df_ab df_ac fmt0 c0 "''m.xlsx''" wb_current wb_expected "''S1''"
        "[''S2'', ''S3'']"]
    by (simp add: s cols r)
  have 5: "check_sheets fmt0 wb_current wb_expected
         (append_failure c0 (Sheet_column_mismatch ''S1'')) [''S2'', ''S3'']
     = check_sheets fmt0 wb_current wb_expected
         (append_failure (append_failure c0 (Sheet_column_mismatch ''S1''))
            (Sheet_shape_mismatch ''S2'' (2, 1) (1, 1))) [''S3'']"
    using mismatch_handling [of df_a2 df_a1 fmt0 "append_failure c0 (Sheet_column_mismatch ''S1'')"
        "''m.xlsx''" wb_current wb_expected "''S2''" "[''S3'']"]
    by (simp add: s r)
  have 6: "check_sheets fmt0 wb_current wb_expected
         (append_failure (append_failure c0 (Sheet_column_mismatch ''S1''))
            (Sheet_shape_mismatch ''S2'' (2, 1) (1, 1))) [''S3'']
     = (c0\<lparr>failures :=
             [Sheet_column_mismatch ''S1'',
              Sheet_shape_mismatch ''S2'' (2, 1) (1, 1),
              Relative_difference (Field (Some ''S3'') ''MSE'' 0) (4 / 5) (1 / 10 ^ 9)]\<rparr>,
        None)"
    by (simp add: checker_defs wb_current_def wb_expected_def df_a1_def df_a5_def)
  from 1 2 3 4 5 6 show ?thesis by simp
qed

text \<open>
  C5 as stated fails: the two tables below have the same shape and share the column
  \<^verbatim>\<open>a\<close>, whose cell differs (1 against 5), and the only failure recorded is the column
  mismatch; the comparison of that cell, which would append a failure, never happens.
\<close>

theorem csv_column_mismatch_stops_comparison:
  "check_csv_file fmt0 c0 ''m.csv'' (Inr df_ab) (Inr df_ac)
     = (False, c0\<lparr>failures := [Column_mismatch [''a'', ''b''] [''a'', ''c'']]\<rparr>)
   \<and> df_columns df_ab ! 0 = df_columns df_ac ! 0
   \<and> df_cell df_ab 0 0 = PNum 1
   \<and> df_cell df_ac 0 0 = PNum 5
   \<and> compare_numeric c0 (PNum 1) (PNum 5) (Field None ''a'' 0)
     = Inr (False, c0\<lparr>failures :=
                        [Relative_difference (Field None ''a'' 0) (4 / 5) (1 / 10 ^ 9)]\<rparr>)"
  by (simp add: checker_defs df_ab_def df_ac_def)

section \<open>The generated-residuals override\<close>

lemma record_model_family_nf:
  "contains ''nf_generated_residuals'' (md_file_path md)
   \<Longrightarrow> record_model_family md model = Inr ''NF-GARCH''"
  by (simp add: record_model_family_def)

lemma metric_records_nf:
  assumes "contains ''nf_generated_residuals'' (md_file_path md)"
    and "metric_records run sf md sheet columns originals idx row asset model mcs = Inr recs"
  shows "\<forall>r \<in> set recs. rr_model_family r = ''NF-GARCH''"
  using assms(2)
proof (induction mcs arbitrary: recs)
  case Nil
  then show ?case by simp
next
  case (Cons mc mcs)
  then show ?case
    by (auto simp: record_model_family_nf [OF assms(1)] split: sum.splits if_splits)
qed

lemma row_records_nf:
  assumes "contains ''nf_generated_residuals'' (md_file_path md)"
    and "row_records run sf md sheet columns ac mc mcs rows = Inr recs"
  shows "\<forall>r \<in> set recs. rr_model_family r = ''NF-GARCH''"
  using assms(2)
proof (induction rows arbitrary: recs)
  case Nil
  then show ?case by simp
next
  case (Cons x rows)
  obtain idx row where x: "x = (idx, row)" by (cases x) auto
  from Cons.prems x obtain asset model recs1 recs2 where
    "metric_records run sf md sheet columns (original_columns columns ac mc mcs row)
       idx row asset model mcs = Inr recs1"
    "row_records run sf md sheet columns ac mc mcs rows = Inr recs2"
    "recs = recs1 @ recs2"
    by (auto split: sum.splits prod.splits)
  then show ?case
    using metric_records_nf [OF assms(1)] Cons.IH by auto
qed

lemma process_dataframe_nf:
  assumes "contains ''nf_generated_residuals'' (md_file_path md)"
    and "process_dataframe run sf df md sheet = Inr recs"
  shows "\<forall>r \<in> set recs. rr_model_family r = ''NF-GARCH''"
  using assms(2) row_records_nf [OF assms(1)]
  by (auto simp: process_dataframe_def Let_def split: if_splits)

lemma sheet_records_nf:
  assumes "contains ''nf_generated_residuals'' (md_file_path md)"
    and "sheet_records run sf md sheets = Inr recs"
  shows "\<forall>r \<in> set recs. rr_model_family r = ''NF-GARCH''"
  using assms(2)
proof (induction sheets arbitrary: recs)
  case Nil
  then show ?case by simp
next
  case (Cons x sheets)
  obtain name df where x: "x = (name, df)" by (cases x) auto
  from Cons.prems x obtain recs1 recs2 where
    "process_dataframe run sf df md (Some name) = Inr recs1"
    "sheet_records run sf md sheets = Inr recs2" "recs = recs1 @ recs2"
    by (auto split: sum.splits)
  then show ?case
    using process_dataframe_nf [OF assms(1)] Cons.IH by auto
qed

lemma parse_file_metadata_file_path:
  "parse_file_metadata fs mx file_path = Inr md \<Longrightarrow> md_file_path md = file_path"
  by (auto simp: parse_file_metadata_def Let_def split: sum.splits)

text \<open>
  C4. Every record emitted for a file whose path has \<^verbatim>\<open>nf_generated_residuals\<close> in it
  (the test the code makes for the generated-residuals directory) has the model family
  \<^verbatim>\<open>NF-GARCH\<close>, whatever the row's model and whatever the metadata say: for one table,
  and for a whole file of any supported kind.
\<close>
theorem generated_residuals_family:
  "(contains ''nf_generated_residuals'' (md_file_path md)
      \<and> process_dataframe run sf df md sheet = Inr recs
    \<longrightarrow> (\<forall>r \<in> set recs. rr_model_family r = ''NF-GARCH''))
   \<and> (contains ''nf_generated_residuals'' file_path
      \<and> file_records run sf fs mx file_path content = Inr recs'
    \<longrightarrow> (\<forall>r \<in> set recs'. rr_model_family r = ''NF-GARCH''))"
proof -
  have "\<forall>r \<in> set recs'. rr_model_family r = ''NF-GARCH''"
    if c: "contains ''nf_generated_residuals'' file_path"
      and f: "file_records run sf fs mx file_path content = Inr recs'"
  proof -
    from f obtain md' where md': "parse_file_metadata fs mx file_path = Inr md'"
      by (auto simp: file_records_def split: sum.splits)
    then have p: "contains ''nf_generated_residuals'' (md_file_path md')"
      using c parse_file_metadata_file_path by simp
    show ?thesis
      using f md' process_dataframe_nf [OF p] sheet_records_nf [OF p]
      by (auto simp: file_records_def split: sum.splits file_data.splits)
  qed
  then show ?thesis
    using process_dataframe_nf by blast
qed

theorem generated_residuals_family_witness:
  "contains ''nf_generated_residuals'' nf_path
   \<and> file_records ''run'' sf0 fs0 default_max_str_digits nf_path (Csv (Inr df_single))
       = Inr records_nf
   \<and> map rr_model records_nf = [PStr ''sGARCH'']
   \<and> list_all (\<lambda>r. rr_model_family r = ''NF-GARCH'') records_nf"
proof -
  have c: "contains ''nf_generated_residuals'' nf_path"
    by code_simp
  have f: "file_records ''run'' sf0 fs0 default_max_str_digits nf_path (Csv (Inr df_single))
       = Inr records_nf"
    by code_simp
  have m: "map rr_model records_nf = [PStr ''sGARCH'']"
    by (simp add: records_nf_def)
  have "\<forall>r \<in> set records_nf. rr_model_family r = ''NF-GARCH''"
    using generated_residuals_family [of md0 "''run''" sf0 df_single None "[]"
        nf_path fs0 default_max_str_digits "Csv (Inr df_single)" records_nf] c f
    by blast
  then have "list_all (\<lambda>r. rr_model_family r = ''NF-GARCH'') records_nf"
    by (simp add: list_all_iff)
  with c f m show ?thesis by blast
qed

section \<open>Missing metric cells\<close>


lemma py_float_number: "py_float sf (PNum x) = Inr (PNum x)"
  by simp






section \<open>The single-row table\<close>








section \<open>The summaries are independent of the order of the records\<close>















section \<open>Metadata inference is total up to the integer conversion\<close>
















end
